theory Spec2Isabelle
  imports Complex_Main "HOL-Library.Char_ord" "HOL-Library.List_Lexorder"
begin

section \<open>Strings\<close>

text \<open>
  A Python \<open>str\<close> is modelled as a \<open>string\<close>, the list of the bytes of its UTF-8
  encoding. Equality, the substring test \<open>sub in s\<close> and the order \<open>s < t\<close> (lexicographic
  on code points) of Python agree with equality, the substring test and the lexicographic
  order on these byte lists; the order on \<open>string\<close> is the one of
  \<open>HOL-Library.List_Lexorder\<close> over \<open>HOL-Library.Char_ord\<close>.
\<close>

fun startswith :: "string \<Rightarrow> string \<Rightarrow> bool" where
  "startswith s [] = True"
| "startswith [] (p # ps) = False"
| "startswith (c # cs) (p # ps) = (c = p \<and> startswith cs ps)"

text \<open>\<open>str_in sub s\<close> is Python's \<open>sub in s\<close> on strings.\<close>

fun str_in :: "string \<Rightarrow> string \<Rightarrow> bool" where
  "str_in sub [] = (sub = [])"
| "str_in sub (c # cs) = (startswith (c # cs) sub \<or> str_in sub cs)"

text \<open>\<open>str_lower\<close> is \<open>str.lower\<close> on the ASCII letters.\<close>

definition char_lower :: "char \<Rightarrow> char" where
  "char_lower c =
     (if CHR ''A'' \<le> c \<and> c \<le> CHR ''Z'' then char_of (of_char c + (32::nat)) else c)"

definition str_lower :: "string \<Rightarrow> string" where
  "str_lower s = map char_lower s"


section \<open>Exceptions\<close>

text \<open>The exceptions the modelled code can raise; a function that can raise returns a sum.\<close>

datatype py_error =
    HTTPError | ConnectionError | JSONDecodeError
  | AttributeError | TypeError | KeyError | IndexError | ValueError
  | EmbeddingError


section \<open>schema\_utils.py: schema inference\<close>

text \<open>
  A schema is a Python \<open>dict\<close> from column name to type label. It is modelled as the
  association list of its items in insertion order; a \<open>dict\<close> holds a key once, and
  \<open>d[k]\<close> on a key that is present is \<open>map_of d k\<close>.
\<close>

type_synonym schema = "(string \<times> string) list"

text \<open>\<open>dict_set d k v\<close> is the assignment \<open>d[k] = v\<close>: an existing key keeps its place.\<close>

fun dict_set :: "schema \<Rightarrow> string \<Rightarrow> string \<Rightarrow> schema" where
  "dict_set [] k v = [(k, v)]"
| "dict_set ((k', v') # d) k v =
     (if k' = k then (k, v) # d else (k', v') # dict_set d k v)"

text \<open>
  The \<open>if\<close>/\<open>elif\<close> chain of the loop body of \<open>infer_schema_from_df\<close>, on the
  descriptor \<open>dtype = str(df[col].dtype)\<close>.
\<close>

definition dtype_label :: "string \<Rightarrow> string" where
  "dtype_label dtype =
     (if str_in ''int'' dtype then ''INTEGER''
      else if str_in ''float'' dtype then ''FLOAT''
      else if str_in ''bool'' dtype then ''BOOLEAN''
      else if str_in ''datetime'' dtype \<or> str_in ''date'' dtype then ''TIMESTAMP''
      else ''VARCHAR'')"

text \<open>
  pandas is not modelled: the data frame is given by its column labels \<open>df.columns\<close> in
  order, each with what \<open>str(df[col].dtype)\<close> evaluates to, the descriptor or the
  exception raised. For a label that the frame holds twice \<open>df[col]\<close> is a frame, which
  has no \<open>dtype\<close>, and the evaluation raises \<open>AttributeError\<close>.
\<close>

fun infer_loop :: "(string \<times> (py_error + string)) list \<Rightarrow> schema \<Rightarrow> py_error + schema" where
  "infer_loop [] schema = Inr schema"
| "infer_loop ((col, Inl e) # rest) schema = Inl e"
| "infer_loop ((col, Inr dtype) # rest) schema =
     infer_loop rest (dict_set schema col (dtype_label dtype))"

definition infer_schema_from_df :: "(string \<times> (py_error + string)) list \<Rightarrow> py_error + schema" where
  "infer_schema_from_df df = infer_loop df []"

text \<open>
  The rule of the normalizer as the specification words it: the same chain, on a
  case-insensitive test.
\<close>

definition normalize_spec :: "string \<Rightarrow> string" where
  "normalize_spec d =
     (if str_in ''int'' (str_lower d) then ''INTEGER''
      else if str_in ''float'' (str_lower d) then ''FLOAT''
      else if str_in ''bool'' (str_lower d) then ''BOOLEAN''
      else if str_in ''datetime'' (str_lower d) \<or> str_in ''date'' (str_lower d)
        then ''TIMESTAMP''
      else ''VARCHAR'')"


section \<open>schema\_utils.py: schema comparison\<close>

text \<open>\<open>keys d\<close> is \<open>set(d)\<close>, the set of the keys of a \<open>dict\<close>.\<close>

definition keys :: "schema \<Rightarrow> string set" where
  "keys d = set (map fst d)"

text \<open>
  The loop over \<open>set(existing).intersection(new)\<close>. Python does not fix the order in
  which a set is iterated, so the loop takes the order \<open>cols\<close> as an argument;
  \<open>conflicts\<close> is the list built so far.
\<close>

fun conflict_loop :: "schema \<Rightarrow> schema \<Rightarrow> string list \<Rightarrow> string list \<Rightarrow> string list" where
  "conflict_loop existing new [] conflicts = conflicts"
| "conflict_loop existing new (col # cols) conflicts =
     conflict_loop existing new cols
       (if map_of existing col \<noteq> map_of new col then conflicts @ [col] else conflicts)"

text \<open>
  \<open>compare_schemas_iter cols\<close> is \<open>compare_schemas\<close> when the set of common keys is
  iterated in the order \<open>cols\<close>; \<open>sorted(list(S))\<close> of a set is
  \<open>sorted_list_of_set S\<close>, and \<open>conflicts.sort()\<close> is \<open>sort\<close>.
\<close>

definition compare_schemas_iter ::
  "string list \<Rightarrow> schema \<Rightarrow> schema \<Rightarrow> string list \<times> string list \<times> string list" where
  "compare_schemas_iter cols existing new =
     (let new_cols = sorted_list_of_set (keys new - keys existing);
          missing_cols = sorted_list_of_set (keys existing - keys new);
          conflicts = sort (conflict_loop existing new cols [])
      in (new_cols, missing_cols, conflicts))"

text \<open>
  \<open>compare_schemas\<close> with one iteration order fixed; lemma \<open>compare_schemas_any_order\<close>
  shows that every other order gives the same result.
\<close>

definition compare_schemas ::
  "schema \<Rightarrow> schema \<Rightarrow> string list \<times> string list \<times> string list" where
  "compare_schemas existing new =
     compare_schemas_iter (sorted_list_of_set (keys existing \<inter> keys new)) existing new"

text \<open>The three components of the result, by the names the specification gives them.\<close>

definition added :: "string list \<times> string list \<times> string list \<Rightarrow> string list" where
  "added r = fst r"

definition removed :: "string list \<times> string list \<times> string list \<Rightarrow> string list" where
  "removed r = fst (snd r)"

definition conflicts_of :: "string list \<times> string list \<times> string list \<Rightarrow> string list" where
  "conflicts_of r = snd (snd r)"


text \<open>The set of the columns in both schemas whose labels differ.\<close>

definition conflict_set :: "schema \<Rightarrow> schema \<Rightarrow> string set" where
  "conflict_set existing new =
     {col. col \<in> keys existing \<and> col \<in> keys new \<and> map_of existing col \<noteq> map_of new col}"


section \<open>Python values\<close>

text \<open>
  What \<open>r.json()\<close> returns: \<open>None\<close>, a \<open>bool\<close>, a number, a \<open>str\<close>, a \<open>list\<close> or a
  \<open>dict\<close> with \<open>str\<close> keys (its items in order, each key once). Numbers are kept as
  rationals.
\<close>

datatype json =
    JNull | JBool bool | JNum rat | JStr string
  | JArr "json list" | JObj "(string \<times> json) list"

text \<open>The truth value of an object in a condition.\<close>

fun truthy :: "json \<Rightarrow> bool" where
  "truthy JNull = False"
| "truthy (JBool b) = b"
| "truthy (JNum n) = (n \<noteq> 0)"
| "truthy (JStr s) = (s \<noteq> [])"
| "truthy (JArr xs) = (xs \<noteq> [])"
| "truthy (JObj d) = (d \<noteq> [])"

text \<open>\<open>x.get(k, default)\<close>: only a \<open>dict\<close> has the method.\<close>

fun py_get :: "json \<Rightarrow> string \<Rightarrow> json \<Rightarrow> py_error + json" where
  "py_get (JObj d) k dflt =
     Inr (case map_of d k of None \<Rightarrow> dflt | Some v \<Rightarrow> v)"
| "py_get x k dflt = Inl AttributeError"

text \<open>
  A byte that continues a UTF-8 sequence, and the first \<open>n\<close> characters of a
  string, \<open>s[:n]\<close>.
\<close>

definition utf8_cont :: "char \<Rightarrow> bool" where
  "utf8_cont c = (128 \<le> (of_char c :: nat) \<and> (of_char c :: nat) < 192)"

fun take_chars :: "nat \<Rightarrow> string \<Rightarrow> string" where
  "take_chars 0 s = []"
| "take_chars (Suc n) [] = []"
| "take_chars (Suc n) (c # cs) =
     c # takeWhile utf8_cont cs @ take_chars n (dropWhile utf8_cont cs)"

text \<open>
  \<open>x[0]\<close>: the first item of a \<open>list\<close>, the first character of a \<open>str\<close>; a
  \<open>dict\<close> with \<open>str\<close> keys has no key \<open>0\<close>, and the other objects cannot be
  subscripted.
\<close>

fun py_index0 :: "json \<Rightarrow> py_error + json" where
  "py_index0 (JArr []) = Inl IndexError"
| "py_index0 (JArr (x # xs)) = Inr x"
| "py_index0 (JStr []) = Inl IndexError"
| "py_index0 (JStr (c # cs)) = Inr (JStr (take_chars 1 (c # cs)))"
| "py_index0 (JObj d) = Inl KeyError"
| "py_index0 x = Inl TypeError"

text \<open>\<open>"".join(xs)\<close>: every item must be a \<open>str\<close>.\<close>

fun str_join :: "json list \<Rightarrow> py_error + string" where
  "str_join [] = Inr []"
| "str_join (JStr s # xs) =
     (case str_join xs of Inl e \<Rightarrow> Inl e | Inr t \<Rightarrow> Inr (s @ t))"
| "str_join (x # xs) = Inl TypeError"

text \<open>\<open>sep.join(xs)\<close> on a list of strings.\<close>

fun join :: "string \<Rightarrow> string list \<Rightarrow> string" where
  "join sep [] = []"
| "join sep [x] = x"
| "join sep (x # y # ys) = x @ sep @ join sep (y # ys)"

text \<open>\<open>str(n)\<close> of a natural number.\<close>

fun digit_char :: "nat \<Rightarrow> char" where
  "digit_char n = char_of (48 + n mod 10)"

fun str_of_nat :: "nat \<Rightarrow> string" where
  "str_of_nat n = (if n < 10 then [digit_char n] else str_of_nat (n div 10) @ [digit_char n])"

definition NL :: string where
  "NL = [CHR 0x0A]"


section \<open>llm\_utils.py\<close>

text \<open>
  The module constants read from the secrets or the environment when the module is
  loaded, as strings.
\<close>

record config =
  LLM_PROVIDER :: string
  OLLAMA_HOST :: string
  OLLAMA_MODEL :: string
  LLM_ENDPOINT :: string
  LLM_API_KEY :: string

definition default_config :: config where
  "default_config =
     \<lparr>LLM_PROVIDER = ''ollama'', OLLAMA_HOST = ''http://localhost:11434'',
      OLLAMA_MODEL = ''llama3.1:8b'', LLM_ENDPOINT = [], LLM_API_KEY = []\<rparr>"

definition SYSTEM_INSTRUCTIONS :: string where
  "SYSTEM_INSTRUCTIONS =
     ''You are a Snowflake schema evolution assistant. Be concise, precise, and include runnable SQL when asked.''"

text \<open>
  A call \<open>requests.post(url, headers=..., json=..., timeout=...)\<close> and what comes back:
  the status code and the body as \<open>r.json()\<close> parses it, \<open>None\<close> when the body is not
  JSON.
\<close>

record http_request =
  url :: string
  headers :: "(string \<times> string) list"
  payload :: json
  timeout :: nat

record http_response =
  status_code :: nat
  body :: "json option"

text \<open>
  The network answers a request with a response or with an exception of \<open>requests\<close>
  (no connection, time-out). The requests sent are kept in a list, the state the
  functions below pass along.
\<close>

type_synonym network = "http_request \<Rightarrow> py_error + http_response"

definition requests_post ::
  "network \<Rightarrow> http_request \<Rightarrow> http_request list \<Rightarrow>
     (py_error + http_response) \<times> http_request list" where
  "requests_post net req sent = (net req, sent @ [req])"

text \<open>\<open>r.raise_for_status()\<close> of \<open>requests\<close> raises on the codes 400 to 599.\<close>

definition raise_for_status :: "http_response \<Rightarrow> py_error + unit" where
  "raise_for_status r =
     (if 400 \<le> status_code r \<and> status_code r < 600 then Inl HTTPError else Inr ())"

definition response_json :: "http_response \<Rightarrow> py_error + json" where
  "response_json r = (case body r of None \<Rightarrow> Inl JSONDecodeError | Some data \<Rightarrow> Inr data)"

text \<open>
  The list comprehension of \<open>_chat_ollama\<close>:
  \<open>[chunk.get("message", {}).get("content", "") for chunk in data]\<close>.
\<close>

fun chunk_contents :: "json list \<Rightarrow> py_error + json list" where
  "chunk_contents [] = Inr []"
| "chunk_contents (chunk # chunks) =
     (case py_get chunk ''message'' (JObj []) of
        Inl e \<Rightarrow> Inl e
      | Inr m \<Rightarrow>
         (case py_get m ''content'' (JStr []) of
            Inl e \<Rightarrow> Inl e
          | Inr c \<Rightarrow>
             (case chunk_contents chunks of
                Inl e \<Rightarrow> Inl e
              | Inr cs \<Rightarrow> Inr (c # cs))))"

text \<open>The part of \<open>_chat_ollama\<close> after \<open>data = r.json()\<close>.\<close>

fun ollama_reply :: "json \<Rightarrow> py_error + json" where
  "ollama_reply (JObj d) =
     (case map_of d ''message'' of
        Some m \<Rightarrow> py_get m ''content'' (JStr [])
      | None \<Rightarrow> Inr (JStr []))"
| "ollama_reply (JArr chunks) =
     (case chunk_contents chunks of
        Inl e \<Rightarrow> Inl e
      | Inr cs \<Rightarrow> (case str_join cs of Inl e \<Rightarrow> Inl e | Inr s \<Rightarrow> Inr (JStr s)))"
| "ollama_reply data = Inr (JStr [])"

definition chat_ollama ::
  "config \<Rightarrow> network \<Rightarrow> json \<Rightarrow> http_request list \<Rightarrow>
     (py_error + json) \<times> http_request list" where
  "chat_ollama cfg net messages sent =
     (let req = \<lparr>url = OLLAMA_HOST cfg @ ''/api/chat'', headers = [],
                 payload = JObj [(''model'', JStr (OLLAMA_MODEL cfg)),
                                 (''messages'', messages), (''stream'', JBool False)],
                 timeout = 120\<rparr>;
          (r, sent') = requests_post net req sent
      in (case r of
            Inl e \<Rightarrow> Inl e
          | Inr resp \<Rightarrow>
             (case raise_for_status resp of
                Inl e \<Rightarrow> Inl e
              | Inr u \<Rightarrow>
                 (case response_json resp of
                    Inl e \<Rightarrow> Inl e
                  | Inr data \<Rightarrow> ollama_reply data)), sent'))"

text \<open>The part of \<open>_chat_remote\<close> after \<open>data = r.json()\<close>.\<close>

fun remote_reply :: "json \<Rightarrow> py_error + json" where
  "remote_reply (JObj d) =
     (case map_of d ''text'' of
        Some t \<Rightarrow> Inr t
      | None \<Rightarrow>
         (case map_of d ''choices'' of
            None \<Rightarrow> Inr (JStr [])
          | Some choices \<Rightarrow>
             (if truthy choices then
                (case py_index0 choices of
                   Inl e \<Rightarrow> Inl e
                 | Inr choice \<Rightarrow>
                    (case py_get choice ''message'' (JObj []) of
                       Inl e \<Rightarrow> Inl e
                     | Inr m \<Rightarrow> py_get m ''content'' (JStr [])))
              else Inr (JStr []))))"
| "remote_reply data = Inr (JStr [])"

definition chat_remote ::
  "config \<Rightarrow> network \<Rightarrow> json \<Rightarrow> http_request list \<Rightarrow>
     (py_error + json) \<times> http_request list" where
  "chat_remote cfg net messages sent =
     (let hdrs = [(''Content-Type'', ''application/json'')]
                 @ (if LLM_API_KEY cfg \<noteq> [] then
                      [(''Authorization'', ''Bearer '' @ LLM_API_KEY cfg)] else []);
          req = \<lparr>url = LLM_ENDPOINT cfg, headers = hdrs,
                 payload = JObj [(''messages'', messages), (''stream'', JBool False)],
                 timeout = 120\<rparr>;
          (r, sent') = requests_post net req sent
      in (case r of
            Inl e \<Rightarrow> Inl e
          | Inr resp \<Rightarrow>
             (case raise_for_status resp of
                Inl e \<Rightarrow> Inl e
              | Inr u \<Rightarrow>
                 (case response_json resp of
                    Inl e \<Rightarrow> Inl e
                  | Inr data \<Rightarrow> remote_reply data)), sent'))"

definition chat_messages :: "string \<Rightarrow> string \<Rightarrow> json" where
  "chat_messages system_instructions user_prompt =
     JArr [JObj [(''role'', JStr ''system''), (''content'', JStr system_instructions)],
           JObj [(''role'', JStr ''user''), (''content'', JStr user_prompt)]]"

definition chat_llm ::
  "config \<Rightarrow> network \<Rightarrow> string \<Rightarrow> string \<Rightarrow> http_request list \<Rightarrow>
     (py_error + json) \<times> http_request list" where
  "chat_llm cfg net user_prompt system_instructions sent =
     (let messages = chat_messages system_instructions user_prompt
      in if LLM_PROVIDER cfg = ''remote'' \<and> LLM_ENDPOINT cfg \<noteq> []
         then chat_remote cfg net messages sent
         else chat_ollama cfg net messages sent)"


section \<open>embedding\_utils.py\<close>

text \<open>
  An embedding is an array of floating-point numbers; it is modelled as the list of the
  real numbers its components stand for (an embedding normalized to unit length has no
  NaN and no infinity). The sentence-transformers model is a parameter: \<open>encode texts\<close>
  is \<open>model.encode(texts, normalize_embeddings=True)\<close> after \<open>_load_model()\<close>, one
  vector for each text, or the exception either of them raises.
\<close>

type_synonym vec = "real list"

type_synonym encoder = "string list \<Rightarrow> py_error + vec list"

definition embed_texts :: "encoder \<Rightarrow> string list \<Rightarrow> py_error + vec list" where
  "embed_texts encode texts = encode texts"

text \<open>
  The floating-point arithmetic and the sort of numpy are not reimplemented: the two
  numpy functions that the code calls are parameters.
  \<^item> \<open>np_dot lib doc_vecs query_vec\<close> is \<open>np.dot(doc_vecs, query_vec)\<close> for the array
    \<open>doc_vecs\<close>, given by its rows, and the vector \<open>query_vec\<close>: the array of the
    products as numpy computes and rounds them, or the exception numpy raises when the
    shapes do not fit.
  \<^item> \<open>np_argsort lib sims\<close> is \<open>np.argsort(sims)\<close> with the default kind of sort.
\<close>

record numpy =
  np_dot :: "vec list \<Rightarrow> vec \<Rightarrow> py_error + real list"
  np_argsort :: "real list \<Rightarrow> nat list"

text \<open>
  What numpy documents of \<open>np.argsort\<close>: the result lists every index once, in
  ascending order of the values. The default kind of sort is not stable, so the order of
  the indices of equal values is left open.
\<close>

definition is_argsort :: "real list \<Rightarrow> nat list \<Rightarrow> bool" where
  "is_argsort sims idx =
     (distinct idx \<and> set idx = set [0..<length sims] \<and> sorted (map (\<lambda>i. sims ! i) idx))"

definition cosine_similarity_matrix :: "numpy \<Rightarrow> vec \<Rightarrow> vec list \<Rightarrow> py_error + real list" where
  "cosine_similarity_matrix lib query_vec doc_vecs = np_dot lib doc_vecs query_vec"

text \<open>
  The slice \<open>xs[-k:]\<close>: the last \<open>k\<close> items when \<open>k\<close> is positive; when \<open>k\<close> is zero
  or negative the slice starts at the index \<open>-k\<close>, counted from the front.
\<close>

definition slice_last :: "int \<Rightarrow> 'a list \<Rightarrow> 'a list" where
  "slice_last k xs =
     (if 0 < k then drop (length xs - nat k) xs else drop (nat (- k)) xs)"

text \<open>
  The list comprehension \<open>[(int(i), float(sims[i])) for i in idx]\<close>; \<open>sims[i]\<close> raises
  on an index that is out of range.
\<close>

fun score_pairs :: "real list \<Rightarrow> nat list \<Rightarrow> py_error + (nat \<times> real) list" where
  "score_pairs sims [] = Inr []"
| "score_pairs sims (i # idx) =
     (if i < length sims then
        (case score_pairs sims idx of
           Inl e \<Rightarrow> Inl e
         | Inr ps \<Rightarrow> Inr ((i, sims ! i) # ps))
      else Inl IndexError)"

definition top_k_similar ::
  "numpy \<Rightarrow> encoder \<Rightarrow> string \<Rightarrow> string list \<Rightarrow> vec list \<Rightarrow> int \<Rightarrow>
     py_error + (nat \<times> real) list" where
  "top_k_similar lib encode query corpus_texts corpus_vecs k =
     (case encode [query] of
        Inl e \<Rightarrow> Inl e
      | Inr [] \<Rightarrow> Inl IndexError
      | Inr (qv # qvs) \<Rightarrow>
         (case cosine_similarity_matrix lib qv corpus_vecs of
            Inl e \<Rightarrow> Inl e
          | Inr sims \<Rightarrow>
             (let idx = rev (slice_last k (np_argsort lib sims))
              in score_pairs sims idx)))"

text \<open>
  One library to run the functions on concrete inputs: a product without rounding error
  and a stable sort. It gives what numpy gives wherever the products and sums are exact
  in floating point and no two scores are equal. An array with no rows is the array
  \<open>np.array([])\<close> of shape \<open>(0,)\<close>, which \<open>np.dot\<close> refuses against a query vector
  that has components. The general theorems below do not depend on this library: they
  hold for every one.
\<close>

definition exact_dot :: "vec list \<Rightarrow> vec \<Rightarrow> py_error + real list" where
  "exact_dot doc_vecs query_vec =
     (if doc_vecs \<noteq> [] \<and> list_all (\<lambda>v. length v = length query_vec) doc_vecs
      then Inr (map (\<lambda>v. sum_list (map2 (*) v query_vec)) doc_vecs)
      else Inl ValueError)"

definition stable_argsort :: "real list \<Rightarrow> nat list" where
  "stable_argsort sims = sort_key (\<lambda>i. sims ! i) [0..<length sims]"

definition reference_numpy :: numpy where
  "reference_numpy = \<lparr>np_dot = exact_dot, np_argsort = stable_argsort\<rparr>"


section \<open>chatbot.py\<close>

text \<open>
  The module state: the texts of the documents and their embeddings, \<open>None\<close> until
  they are computed.
\<close>

record doc_state =
  DOC_TEXTS :: "string list"
  DOC_EMB :: "vec list option"

definition initial_state :: doc_state where
  "initial_state = \<lparr>DOC_TEXTS = [], DOC_EMB = None\<rparr>"

text \<open>
  The \<open>docs\<close> directory: what the two \<open>glob\<close> calls list, and the text of a file, \<open>None\<close>
  when opening or reading it raises.
\<close>

record docs_dir =
  glob_md :: "string list"
  glob_txt :: "string list"
  read_file :: "string \<Rightarrow> string option"

fun read_docs :: "(string \<Rightarrow> string option) \<Rightarrow> string list \<Rightarrow> string list \<Rightarrow> string list" where
  "read_docs rd [] texts = texts"
| "read_docs rd (p # ps) texts =
     read_docs rd ps (case rd p of None \<Rightarrow> texts | Some t \<Rightarrow> texts @ [t])"

text \<open>
  \<open>_load_docs\<close> returns nothing; it changes the module state, also when it raises, so
  the state comes back beside the result.
\<close>

definition load_docs ::
  "docs_dir \<Rightarrow> encoder \<Rightarrow> doc_state \<Rightarrow> (py_error + unit) \<times> doc_state" where
  "load_docs dir encode st =
     (if DOC_TEXTS st \<noteq> [] then (Inr (), st)
      else
        (let paths = sort (glob_md dir @ glob_txt dir);
             st1 = st\<lparr>DOC_TEXTS := read_docs (read_file dir) paths (DOC_TEXTS st)\<rparr>
         in if DOC_TEXTS st1 \<noteq> [] then
              (case embed_texts encode (DOC_TEXTS st1) of
                 Inl e \<Rightarrow> (Inl e, st1)
               | Inr emb \<Rightarrow> (Inr (), st1\<lparr>DOC_EMB := Some emb\<rparr>))
            else (Inr (), st1)))"

definition SYSTEM :: string where
  "SYSTEM = ''You answer questions about Snowflake schema evolution. Prefer any provided context.''"

text \<open>
  The list comprehension of \<open>answer_question\<close>; the escaped backslash before the
  letter n in its f-string gives a backslash and the letter n, not a line break.
\<close>

fun doc_contexts :: "string list \<Rightarrow> (nat \<times> real) list \<Rightarrow> py_error + string list" where
  "doc_contexts texts [] = Inr []"
| "doc_contexts texts ((i, s) # sims) =
     (if i < length texts then
        (case doc_contexts texts sims of
           Inl e \<Rightarrow> Inl e
         | Inr ctxs \<Rightarrow>
            Inr ((''[Doc '' @ str_of_nat i @ '']'' @ [CHR 0x5C, CHR ''n'']
                  @ take_chars 1200 (texts ! i)) # ctxs))
      else Inl IndexError)"

text \<open>
  The \<open>try\<close> block of \<open>answer_question\<close>: whatever is raised inside is caught, and
  \<open>context\<close> keeps its value.
\<close>

definition retrieve_context ::
  "numpy \<Rightarrow> encoder \<Rightarrow> doc_state \<Rightarrow> string \<Rightarrow> string \<Rightarrow> string" where
  "retrieve_context lib encode st question context =
     (if DOC_TEXTS st \<noteq> [] then
        (case DOC_EMB st of
           None \<Rightarrow> context
         | Some emb \<Rightarrow>
            (case top_k_similar lib encode question (DOC_TEXTS st) emb 2 of
               Inl e \<Rightarrow> context
             | Inr sims \<Rightarrow>
                (case doc_contexts (DOC_TEXTS st) sims of
                   Inl e \<Rightarrow> context
                 | Inr ctxs \<Rightarrow> context @ NL @ NL @ join (NL @ NL) ctxs)))
      else context)"

definition answer_prompt :: "string \<Rightarrow> string \<Rightarrow> string" where
  "answer_prompt context question =
     NL @ ''Context (may be empty):'' @ NL @ context @ NL @ NL
     @ ''Question: '' @ question @ NL @ NL
     @ ''Answer clearly and concisely. When relevant, include Snowflake SQL.'' @ NL"

definition answer_question ::
  "docs_dir \<Rightarrow> numpy \<Rightarrow> encoder \<Rightarrow> config \<Rightarrow> network \<Rightarrow> string \<Rightarrow> string option \<Rightarrow>
     doc_state \<Rightarrow> http_request list \<Rightarrow> (py_error + json) \<times> doc_state \<times> http_request list" where
  "answer_question dir lib encode cfg net question extra_context st sent =
     (case load_docs dir encode st of
        (Inl e, st1) \<Rightarrow> (Inl e, st1, sent)
      | (Inr u, st1) \<Rightarrow>
         (let context = (case extra_context of None \<Rightarrow> [] | Some c \<Rightarrow> c);
              context1 = retrieve_context lib encode st1 question context;
              (r, sent1) = chat_llm cfg net (answer_prompt context1 question) SYSTEM sent
          in (r, st1, sent1)))"

section \<open>Properties of the schema comparison\<close>

lemma conflict_loop_filter:
  "conflict_loop existing new cols acc =
     acc @ filter (\<lambda>col. map_of existing col \<noteq> map_of new col) cols"
  by (induction cols arbitrary: acc) simp_all

lemma keys_eq_dom: "keys d = dom (map_of d)"
  by (simp add: keys_def dom_map_of_conv_image_fst)

lemma finite_keys: "finite (keys d)"
  by (simp add: keys_def)

lemma sort_distinct_eq: "distinct xs \<Longrightarrow> sort xs = sorted_list_of_set (set xs)"
  by (simp add: sorted_list_of_set_sort_remdups distinct_remdups_id)

lemma sort_conflict_loop:
  assumes "set cols = keys existing \<inter> keys new" and "distinct cols"
  shows "sort (conflict_loop existing new cols []) =
           sorted_list_of_set (conflict_set existing new)"
proof -
  let ?P = "\<lambda>col. map_of existing col \<noteq> map_of new col"
  have "distinct (filter ?P cols)" using assms(2) by simp
  moreover have "set (filter ?P cols) = conflict_set existing new"
    using assms(1) by (auto simp: conflict_set_def)
  ultimately show ?thesis
    by (simp add: conflict_loop_filter sort_distinct_eq)
qed

lemma compare_schemas_iter_char:
  assumes "set cols = keys existing \<inter> keys new" and "distinct cols"
  shows "compare_schemas_iter cols existing new =
     (sorted_list_of_set (keys new - keys existing),
      sorted_list_of_set (keys existing - keys new),
      sorted_list_of_set (conflict_set existing new))"
  using sort_conflict_loop [OF assms] by (simp add: compare_schemas_iter_def)

lemma compare_schemas_char:
  "compare_schemas existing new =
     (sorted_list_of_set (keys new - keys existing),
      sorted_list_of_set (keys existing - keys new),
      sorted_list_of_set (conflict_set existing new))"
  unfolding compare_schemas_def
  by (rule compare_schemas_iter_char) (simp_all add: finite_keys)

text \<open>
  The order in which Python iterates the set of common keys does not matter: every
  enumeration of that set gives the result of \<open>compare_schemas\<close>.
\<close>

lemma compare_schemas_any_order:
  assumes "set cols = keys existing \<inter> keys new" and "distinct cols"
  shows "compare_schemas_iter cols existing new = compare_schemas existing new"
  by (simp add: compare_schemas_iter_char [OF assms] compare_schemas_char)

lemma finite_conflict_set: "finite (conflict_set existing new)"
  by (rule finite_subset [of _ "keys existing"]) (auto simp: conflict_set_def finite_keys)

lemma conflict_set_values:
  "conflict_set existing new =
     {col. \<exists>t u. map_of existing col = Some t \<and> map_of new col = Some u \<and> t \<noteq> u}"
  by (auto simp: conflict_set_def keys_eq_dom)


lemma compare_schemas_example:
  "compare_schemas [(''a'', ''VARCHAR''), (''b'', ''INTEGER'')]
                   [(''b'', ''FLOAT''), (''c'', ''VARCHAR'')]
     = ([''c''], [''a''], [''b''])"
  by code_simp

text \<open>
  Claim C1. For all schemas \<open>baseline\<close> and \<open>candidate\<close>, the columns added are the
  keys of the candidate that the baseline lacks, the columns removed are the keys of the
  baseline that the candidate lacks, and the conflicts are the keys of both whose labels
  are different strings; no column is listed twice. The baseline
  \<open>{"a": "VARCHAR", "b": "INTEGER"}\<close> against the candidate
  \<open>{"b": "FLOAT", "c": "VARCHAR"}\<close> gives added \<open>["c"]\<close>, removed \<open>["a"]\<close> and
  conflicts \<open>["b"]\<close>.
\<close>

theorem compare_schemas_classifies:
  "set (added (compare_schemas baseline candidate)) = keys candidate - keys baseline
 \<and> set (removed (compare_schemas baseline candidate)) = keys baseline - keys candidate
 \<and> set (conflicts_of (compare_schemas baseline candidate)) =
     {col. \<exists>t u. map_of baseline col = Some t \<and> map_of candidate col = Some u \<and> t \<noteq> u}
 \<and> distinct (added (compare_schemas baseline candidate))
 \<and> distinct (removed (compare_schemas baseline candidate))
 \<and> distinct (conflicts_of (compare_schemas baseline candidate))
 \<and> compare_schemas [(''a'', ''VARCHAR''), (''b'', ''INTEGER'')]
                   [(''b'', ''FLOAT''), (''c'', ''VARCHAR'')]
     = ([''c''], [''a''], [''b''])"
proof -
  let ?r = "compare_schemas baseline candidate"
  have sets: "set (added ?r) = keys candidate - keys baseline"
    "set (removed ?r) = keys baseline - keys candidate"
    "set (conflicts_of ?r) = conflict_set baseline candidate"
    by (simp_all add: compare_schemas_char added_def removed_def conflicts_of_def
        finite_keys finite_conflict_set)
  have dist: "distinct (added ?r)" "distinct (removed ?r)" "distinct (conflicts_of ?r)"
    by (simp_all add: compare_schemas_char added_def removed_def conflicts_of_def)
  show ?thesis
    using sets dist compare_schemas_example conflict_set_values [of baseline candidate]
    by (simp only: simp_thms)
qed



text \<open>
  Claim C6. Comparing a schema with itself, the empty schema included, gives three
  empty lists.
\<close>

theorem compare_schemas_self: "compare_schemas s s = ([], [], [])"
  by (simp add: compare_schemas_char conflict_set_def)

text \<open>
  Claim C7. The columns added from \<open>a\<close> to \<open>b\<close> are the columns removed from \<open>b\<close>
  to \<open>a\<close>, and the columns removed from \<open>a\<close> to \<open>b\<close> are the columns added from
  \<open>b\<close> to \<open>a\<close>.
\<close>

theorem compare_schemas_symmetric:
  "added (compare_schemas a b) = removed (compare_schemas b a)
 \<and> removed (compare_schemas a b) = added (compare_schemas b a)"
  by (simp add: compare_schemas_char added_def removed_def)

text \<open>
  Claim C8. No column name is in two of the three lists.
\<close>

theorem compare_schemas_disjoint:
  "set (added (compare_schemas existing new)) \<inter> set (removed (compare_schemas existing new)) = {}
 \<and> set (added (compare_schemas existing new)) \<inter> set (conflicts_of (compare_schemas existing new)) = {}
 \<and> set (removed (compare_schemas existing new)) \<inter> set (conflicts_of (compare_schemas existing new)) = {}"
  by (auto simp: compare_schemas_char added_def removed_def conflicts_of_def finite_keys
      finite_conflict_set conflict_set_def)


section \<open>Properties of the type normalizer\<close>

lemma startswith_iff: "startswith s p \<longleftrightarrow> (\<exists>q. s = p @ q)"
  by (induction s p rule: startswith.induct) auto

text \<open>\<open>str_in\<close> is the substring test: \<open>sub\<close> occurs in \<open>s\<close> at some position.\<close>

lemma str_in_iff: "str_in sub s \<longleftrightarrow> (\<exists>p q. s = p @ sub @ q)"
proof (induction s)
  case Nil
  then show ?case by simp
next
  case (Cons c cs)
  show ?case
  proof
    assume "str_in sub (c # cs)"
    then consider "startswith (c # cs) sub" | "str_in sub cs" by auto
    then show "\<exists>p q. c # cs = p @ sub @ q"
    proof cases
      case 1
      then obtain q where "c # cs = sub @ q" by (auto simp: startswith_iff)
      then have "c # cs = [] @ sub @ q" by simp
      then show ?thesis by blast
    next
      case 2
      then obtain p q where "cs = p @ sub @ q" using Cons.IH by auto
      then have "c # cs = (c # p) @ sub @ q" by simp
      then show ?thesis by blast
    qed
  next
    assume "\<exists>p q. c # cs = p @ sub @ q"
    then obtain p q where pq: "c # cs = p @ sub @ q" by blast
    show "str_in sub (c # cs)"
    proof (cases p)
      case Nil
      then have "startswith (c # cs) sub" using pq by (auto simp: startswith_iff)
      then show ?thesis by simp
    next
      case (Cons a p')
      then have "cs = p' @ sub @ q" using pq by simp
      then have "str_in sub cs" using Cons.IH by blast
      then show ?thesis by simp
    qed
  qed
qed

lemma dict_set_fresh: "k \<notin> fst ` set d \<Longrightarrow> dict_set d k v = d @ [(k, v)]"
  by (induction d) auto

lemma infer_loop_distinct:
  "distinct (map fst df) \<Longrightarrow> fst ` set df \<inter> fst ` set schema = {} \<Longrightarrow>
     infer_loop (map (\<lambda>(col, dtype). (col, Inr dtype)) df) schema
       = Inr (schema @ map (\<lambda>(col, dtype). (col, dtype_label dtype)) df)"
proof (induction df arbitrary: schema)
  case Nil
  then show ?case by simp
next
  case (Cons a df)
  obtain col dtype where a: "a = (col, dtype)" by (cases a)
  have fresh: "col \<notin> fst ` set schema" using Cons.prems(2) a by auto
  have "fst ` set df \<inter> fst ` set (schema @ [(col, dtype_label dtype)]) = {}"
    using Cons.prems a by auto
  then show ?case
    using Cons.IH [of "schema @ [(col, dtype_label dtype)]"] Cons.prems(1) a
    by (simp add: dict_set_fresh [OF fresh])
qed

text \<open>
  On a data frame whose column labels are distinct and whose dtypes all have a
  descriptor, the inferred schema lists the columns in order, each with the label of its
  descriptor.
\<close>

lemma infer_schema_from_df_distinct:
  "distinct (map fst df) \<Longrightarrow>
     infer_schema_from_df (map (\<lambda>(col, dtype). (col, Inr dtype)) df)
       = Inr (map (\<lambda>(col, dtype). (col, dtype_label dtype)) df)"
  using infer_loop_distinct [of df "[]"] by (simp add: infer_schema_from_df_def)

text \<open>When the evaluation of a descriptor raises, \<open>infer_schema_from_df\<close> raises.\<close>

lemma infer_loop_raises:
  "(col, Inl e) \<in> set df \<Longrightarrow> \<exists>e'. infer_loop df schema = Inl e'"
proof (induction df arbitrary: schema)
  case Nil
  then show ?case by simp
next
  case (Cons a df)
  obtain c r where a: "a = (c, r)" by (cases a)
  show ?case
  proof (cases r)
    case (Inl e0)
    then show ?thesis using a by simp
  next
    case (Inr d)
    then have "(col, Inl e) \<in> set df" using Cons.prems a by auto
    then show ?thesis using Cons.IH a Inr by simp
  qed
qed

text \<open>
  Claim C2, as the code has it. Every descriptor gets one of the five labels, by the
  first test that holds in the order \<open>int\<close>, \<open>float\<close>, \<open>bool\<close>, \<open>datetime\<close> or
  \<open>date\<close>, and \<open>VARCHAR\<close> when none holds. The test is whether the lower-case word
  occurs in the descriptor as it is written: it is sensitive to case.
\<close>

theorem dtype_label_first_match:
  "dtype_label d \<in> {''INTEGER'', ''FLOAT'', ''BOOLEAN'', ''TIMESTAMP'', ''VARCHAR''}
 \<and> dtype_label d =
     (if \<exists>p q. d = p @ ''int'' @ q then ''INTEGER''
      else if \<exists>p q. d = p @ ''float'' @ q then ''FLOAT''
      else if \<exists>p q. d = p @ ''bool'' @ q then ''BOOLEAN''
      else if (\<exists>p q. d = p @ ''datetime'' @ q) \<or> (\<exists>p q. d = p @ ''date'' @ q)
        then ''TIMESTAMP''
      else ''VARCHAR'')"
  unfolding dtype_label_def str_in_iff by simp

theorem dtype_label_first_match_witness:
  "dtype_label ''datetime64[ns]''
     \<in> {''INTEGER'', ''FLOAT'', ''BOOLEAN'', ''TIMESTAMP'', ''VARCHAR''}"
  by (rule conjunct1 [OF dtype_label_first_match])

text \<open>
  The claim as stated asks for a case-insensitive test. The descriptor \<open>Int64\<close> of the
  nullable integer dtype of pandas contains \<open>int\<close> when case is ignored, so the rule of
  the specification labels it \<open>INTEGER\<close>; the code labels it \<open>VARCHAR\<close>.
\<close>

theorem dtype_label_case_counterexample:
  "str_in ''int'' (str_lower ''Int64'')
 \<and> normalize_spec ''Int64'' = ''INTEGER''
 \<and> dtype_label ''Int64'' = ''VARCHAR''"
  by code_simp


section \<open>Properties of the similarity search\<close>

lemma length_slice_last: "1 \<le> k \<Longrightarrow> length (slice_last k xs) = min (nat k) (length xs)"
  by (auto simp: slice_last_def)

lemma set_slice_last: "set (slice_last k xs) \<subseteq> set xs"
  by (auto simp: slice_last_def dest: in_set_dropD)

lemma distinct_slice_last: "distinct xs \<Longrightarrow> distinct (slice_last k xs)"
  by (simp add: slice_last_def)

lemma sorted_slice_last: "sorted (map f xs) \<Longrightarrow> sorted (map f (slice_last k xs))"
  by (simp add: slice_last_def sorted_wrt_drop flip: drop_map)

text \<open>
  What the slice leaves out scores no more than what it keeps, when the list is in
  ascending order of the scores.
\<close>

lemma slice_last_highest:
  assumes "sorted (map f xs)" and "1 \<le> k"
      and "j \<in> set xs" and "j \<notin> set (slice_last k xs)" and "i \<in> set (slice_last k xs)"
  shows "f j \<le> f i"
proof -
  define n where "n = length xs - nat k"
  have sl: "slice_last k xs = drop n xs"
    using assms(2) by (simp add: slice_last_def n_def)
  have "set xs = set (take n xs) \<union> set (drop n xs)"
    by (metis append_take_drop_id set_append)
  then have j: "j \<in> set (take n xs)"
    using assms(3,4) sl by auto
  have i: "i \<in> set (drop n xs)"
    using assms(5) sl by simp
  have "sorted (map f (take n xs) @ map f (drop n xs))"
    using assms(1) by (simp flip: map_append)
  then have "\<forall>x\<in>set (map f (take n xs)). \<forall>y\<in>set (map f (drop n xs)). x \<le> y"
    by (simp add: sorted_append)
  then show ?thesis using i j by auto
qed

lemma length_is_argsort:
  assumes "is_argsort sims idx"
  shows "length idx = length sims"
proof -
  have d: "distinct idx" and s: "set idx = {0..<length sims}"
    using assms by (simp_all add: is_argsort_def)
  have "length idx = card (set idx)"
    using d by (simp add: distinct_card)
  also have "\<dots> = length sims"
    by (simp add: s)
  finally show ?thesis .
qed

lemma score_pairs_in_range:
  "set idx \<subseteq> {0..<length sims} \<Longrightarrow> score_pairs sims idx = Inr (map (\<lambda>i. (i, sims ! i)) idx)"
  by (induction idx) simp_all

text \<open>The stable sort is one of the sorts that the contract of \<open>np.argsort\<close> allows.\<close>

lemma is_argsort_stable: "is_argsort sims (stable_argsort sims)"
  by (simp add: is_argsort_def stable_argsort_def)

text \<open>
  Claim C4, as the code has it. Let the query be embedded to the vector \<open>qv\<close>, let
  \<open>np.dot\<close> give the array \<open>sims\<close> of one score for each of the \<open>N\<close> stored vectors, let
  \<open>np.argsort\<close> keep its contract on \<open>sims\<close>, and let \<open>k\<close> be at least 1. Then
  \<open>top_k_similar\<close> returns \<open>min k N\<close> pairs of an index and a score; the indices are
  distinct and below \<open>N\<close>; each score is the entry of \<open>np.dot(corpus_vecs, qv)\<close> at its
  index, the dot product as numpy computes it; the scores descend; and every document
  that is not returned scores no more than each one that is. Nothing is said on the order
  of equal scores.
\<close>

theorem top_k_similar_ranked:
  assumes enc: "encode [query] = Inr (qv # qvs)"
      and dot: "np_dot lib corpus_vecs qv = Inr sims"
      and len: "length sims = length corpus_vecs"
      and srt: "is_argsort sims (np_argsort lib sims)"
      and k: "1 \<le> k"
  shows "\<exists>res. top_k_similar lib encode query corpus_texts corpus_vecs k = Inr res
           \<and> length res = min (nat k) (length corpus_vecs)
           \<and> list_all (\<lambda>(i, s). i < length corpus_vecs \<and> s = sims ! i) res
           \<and> distinct (map fst res)
           \<and> sorted_wrt (\<ge>) (map snd res)
           \<and> (\<forall>j < length corpus_vecs. j \<notin> set (map fst res) \<longrightarrow>
                 list_all (\<lambda>(i, s). sims ! j \<le> s) res)"
proof -
  define xs where "xs = np_argsort lib sims"
  define idx where "idx = rev (slice_last k xs)"
  define res where "res = map (\<lambda>i. (i, sims ! i)) idx"
  have xs_dist: "distinct xs" and xs_set: "set xs = {0..<length sims}"
    and xs_sorted: "sorted (map (\<lambda>i. sims ! i) xs)"
    using srt by (simp_all add: is_argsort_def xs_def)
  have xs_len: "length xs = length sims"
    using srt by (simp add: xs_def length_is_argsort)
  have idx_set: "set idx = set (slice_last k xs)"
    by (simp add: idx_def)
  have idx_range: "set idx \<subseteq> {0..<length sims}"
    using set_slice_last [of k xs] by (simp add: idx_set xs_set)
  have run: "top_k_similar lib encode query corpus_texts corpus_vecs k = Inr res"
    using enc dot score_pairs_in_range [OF idx_range]
    by (simp add: top_k_similar_def cosine_similarity_matrix_def res_def idx_def xs_def)
  have fst_res: "map fst res = idx"
    by (simp add: res_def comp_def)
  have snd_res: "map snd res = map (\<lambda>i. sims ! i) idx"
    by (simp add: res_def comp_def)
  have c1: "length res = min (nat k) (length corpus_vecs)"
    using length_slice_last [OF k, of xs] by (simp add: res_def idx_def xs_len len)
  have c2: "list_all (\<lambda>(i, s). i < length corpus_vecs \<and> s = sims ! i) res"
    using idx_range by (auto simp: res_def list_all_iff len)
  have c3: "distinct (map fst res)"
    using distinct_slice_last [OF xs_dist, of k] by (simp add: fst_res idx_def)
  have "sorted (map (\<lambda>i. sims ! i) (slice_last k xs))"
    by (rule sorted_slice_last) (rule xs_sorted)
  then have c4: "sorted_wrt (\<ge>) (map snd res)"
    by (simp add: snd_res idx_def rev_map [symmetric] sorted_wrt_rev)
  have c5: "\<forall>j < length corpus_vecs. j \<notin> set (map fst res) \<longrightarrow>
              list_all (\<lambda>(i, s). sims ! j \<le> s) res"
  proof (intro allI impI)
    fix j
    assume j: "j < length corpus_vecs" and out: "j \<notin> set (map fst res)"
    have jx: "j \<in> set xs" using j by (simp add: xs_set len)
    have jo: "j \<notin> set (slice_last k xs)" using out by (simp add: fst_res idx_set)
    have "\<forall>i \<in> set idx. sims ! j \<le> sims ! i"
      using slice_last_highest [OF xs_sorted k jx jo] by (simp add: idx_set)
    then show "list_all (\<lambda>(i, s). sims ! j \<le> s) res"
      by (simp add: res_def list_all_iff)
  qed
  from run c1 c2 c3 c4 c5 show ?thesis by blast
qed

lemma reference_dot_example:
  "np_dot reference_numpy [[0, 1], [1, 0], [1 / 2, 1 / 2]] [1, 0] = Inr [0, 1, 1 / 2]"
  by (simp add: reference_numpy_def exact_dot_def)

theorem top_k_similar_ranked_witness:
  "\<exists>res. top_k_similar reference_numpy (\<lambda>ts. Inr [[1, 0]]) ''q'' [''d0'', ''d1'', ''d2'']
            [[0, 1], [1, 0], [1 / 2, 1 / 2]] 2 = Inr res
     \<and> length res = min (nat 2) (length [[0, 1], [1, 0], [1 / 2, 1 / 2 :: real]])
     \<and> list_all (\<lambda>(i, s). i < length [[0, 1], [1, 0], [1 / 2, 1 / 2 :: real]]
                    \<and> s = [0, 1, 1 / 2] ! i) res
     \<and> distinct (map fst res)
     \<and> sorted_wrt (\<ge>) (map snd res)
     \<and> (\<forall>j < length [[0, 1], [1, 0], [1 / 2, 1 / 2 :: real]]. j \<notin> set (map fst res) \<longrightarrow>
           list_all (\<lambda>(i, s). [0, 1, 1 / 2] ! j \<le> s) res)"
proof (rule top_k_similar_ranked)
  show "(\<lambda>ts. Inr [[1, 0]]) [''q''] = Inr ([1, 0] # [])" by simp
  show "np_dot reference_numpy [[0, 1], [1, 0], [1 / 2, 1 / 2]] [1, 0] = Inr [0, 1, 1 / 2]"
    by (rule reference_dot_example)
  show "length [0, 1, 1 / 2 :: real] = length [[0, 1], [1, 0], [1 / 2, 1 / 2 :: real]]"
    by simp
  show "is_argsort [0, 1, 1 / 2] (np_argsort reference_numpy [0, 1, 1 / 2])"
    by (simp add: reference_numpy_def is_argsort_stable)
  show "1 \<le> (2 :: int)" by simp
qed

text \<open>
  The claim as stated fails at \<open>k = 0\<close>: the slice \<open>[-0:]\<close> is the whole array, so a
  corpus of one document gives one pair and not \<open>min 0 1 = 0\<close> (the product \<open>1 * 1\<close> is
  exact and the one index can only be sorted one way). For two documents of equal score
  the contract of \<open>np.argsort\<close> allows the order \<open>[0, 1]\<close>, and then the reversal puts
  index 1 before index 0.
\<close>

theorem top_k_similar_counterexample:
  "top_k_similar reference_numpy (\<lambda>ts. Inr [[1]]) ''q'' [''d0''] [[1]] 0 = Inr [(0, 1)]
 \<and> is_argsort [1, 1] [0, 1]
 \<and> top_k_similar \<lparr>np_dot = exact_dot, np_argsort = (\<lambda>sims. [0, 1])\<rparr>
      (\<lambda>ts. Inr [[1]]) ''q'' [''d0'', ''d1''] [[1], [1]] 2 = Inr [(1, 1), (0, 1)]"
  by code_simp

text \<open>
  The contract allows the order \<open>[1, 0]\<close> on two equal scores as well, and then index 0
  comes first: the code leaves the order of equal scores to numpy.
\<close>

lemma top_k_similar_tie_order_open:
  "is_argsort [1, 1] [1, 0]
 \<and> top_k_similar \<lparr>np_dot = exact_dot, np_argsort = (\<lambda>sims. [1, 0])\<rparr>
      (\<lambda>ts. Inr [[1]]) ''q'' [''d0'', ''d1''] [[1], [1]] 2 = Inr [(0, 1), (1, 1)]"
  by code_simp


section \<open>Properties of the generation backend\<close>

lemma chat_ollama_run:
  "chat_ollama cfg net messages sent =
     (case net \<lparr>url = OLLAMA_HOST cfg @ ''/api/chat'', headers = [],
                 payload = JObj [(''model'', JStr (OLLAMA_MODEL cfg)),
                                 (''messages'', messages), (''stream'', JBool False)],
                 timeout = 120\<rparr> of
        Inl e \<Rightarrow> Inl e
      | Inr resp \<Rightarrow>
          (case raise_for_status resp of
             Inl e \<Rightarrow> Inl e
           | Inr u \<Rightarrow>
              (case response_json resp of
                 Inl e \<Rightarrow> Inl e
               | Inr data \<Rightarrow> ollama_reply data)),
      sent @ [\<lparr>url = OLLAMA_HOST cfg @ ''/api/chat'', headers = [],
                 payload = JObj [(''model'', JStr (OLLAMA_MODEL cfg)),
                                 (''messages'', messages), (''stream'', JBool False)],
                 timeout = 120\<rparr>])"
  by (simp add: chat_ollama_def requests_post_def Let_def)

lemma chat_remote_run:
  "chat_remote cfg net messages sent =
     (case net \<lparr>url = LLM_ENDPOINT cfg,
                 headers = [(''Content-Type'', ''application/json'')]
                   @ (if LLM_API_KEY cfg \<noteq> [] then
                        [(''Authorization'', ''Bearer '' @ LLM_API_KEY cfg)] else []),
                 payload = JObj [(''messages'', messages), (''stream'', JBool False)],
                 timeout = 120\<rparr> of
        Inl e \<Rightarrow> Inl e
      | Inr resp \<Rightarrow>
          (case raise_for_status resp of
             Inl e \<Rightarrow> Inl e
           | Inr u \<Rightarrow>
              (case response_json resp of
                 Inl e \<Rightarrow> Inl e
               | Inr data \<Rightarrow> remote_reply data)),
      sent @ [\<lparr>url = LLM_ENDPOINT cfg,
                 headers = [(''Content-Type'', ''application/json'')]
                   @ (if LLM_API_KEY cfg \<noteq> [] then
                        [(''Authorization'', ''Bearer '' @ LLM_API_KEY cfg)] else []),
                 payload = JObj [(''messages'', messages), (''stream'', JBool False)],
                 timeout = 120\<rparr>])"
  by (simp add: chat_remote_def requests_post_def Let_def)

lemma chat_llm_if:
  "chat_llm cfg net up si sent =
     (if LLM_PROVIDER cfg = ''remote'' \<and> LLM_ENDPOINT cfg \<noteq> []
      then chat_remote cfg net (chat_messages si up) sent
      else chat_ollama cfg net (chat_messages si up) sent)"
  by (simp add: chat_llm_def Let_def)

text \<open>
  Claim C9, as the code has it. Let \<open>req\<close> be the request that \<open>chat_llm\<close> sends.
  When the network raises, \<open>chat_llm\<close> raises the same exception; when the response has
  a status from 400 to 599 it raises \<open>HTTPError\<close>; when the status is another one and
  the body is not JSON it raises \<open>JSONDecodeError\<close>. When the body is a JSON object
  with none of the fields \<open>message\<close>, \<open>text\<close> and \<open>choices\<close>, it does not raise: it
  returns the empty string.
\<close>

theorem chat_llm_backend_errors:
  assumes "req = last (snd (chat_llm cfg net up si sent))"
  shows "(net req = Inl e \<longrightarrow> fst (chat_llm cfg net up si sent) = Inl e)
       \<and> (net req = Inr resp \<and> 400 \<le> status_code resp \<and> status_code resp < 600
            \<longrightarrow> fst (chat_llm cfg net up si sent) = Inl HTTPError)
       \<and> (net req = Inr resp \<and> \<not> (400 \<le> status_code resp \<and> status_code resp < 600)
            \<and> body resp = None
            \<longrightarrow> fst (chat_llm cfg net up si sent) = Inl JSONDecodeError)
       \<and> (net req = Inr resp \<and> \<not> (400 \<le> status_code resp \<and> status_code resp < 600)
            \<and> body resp = Some (JObj d)
            \<and> map_of d ''message'' = None \<and> map_of d ''text'' = None
            \<and> map_of d ''choices'' = None
            \<longrightarrow> fst (chat_llm cfg net up si sent) = Inr (JStr []))"
proof (cases "LLM_PROVIDER cfg = ''remote'' \<and> LLM_ENDPOINT cfg \<noteq> []")
  case True
  have run: "chat_llm cfg net up si sent = chat_remote cfg net (chat_messages si up) sent"
    using True by (simp add: chat_llm_if)
  show ?thesis
    using assms unfolding run chat_remote_run
    by (simp add: raise_for_status_def response_json_def)
next
  case False
  have run: "chat_llm cfg net up si sent = chat_ollama cfg net (chat_messages si up) sent"
    by (simp only: chat_llm_if False if_False)
  show ?thesis
    using assms unfolding run chat_ollama_run
    by (simp add: raise_for_status_def response_json_def)
qed

theorem chat_llm_backend_errors_witness:
  "fst (chat_llm default_config (\<lambda>req. Inl ConnectionError) ''hi'' SYSTEM_INSTRUCTIONS [])
     = Inl ConnectionError
 \<and> fst (chat_llm default_config (\<lambda>req. Inr \<lparr>status_code = 500, body = None\<rparr>)
          ''hi'' SYSTEM_INSTRUCTIONS []) = Inl HTTPError
 \<and> fst (chat_llm default_config (\<lambda>req. Inr \<lparr>status_code = 200, body = None\<rparr>)
          ''hi'' SYSTEM_INSTRUCTIONS []) = Inl JSONDecodeError
 \<and> fst (chat_llm default_config
          (\<lambda>req. Inr \<lparr>status_code = 200, body = Some (JObj [(''error'', JStr ''busy'')])\<rparr>)
          ''hi'' SYSTEM_INSTRUCTIONS []) = Inr (JStr [])"
proof -
  have a: "fst (chat_llm default_config (\<lambda>req. Inl ConnectionError) ''hi''
                 SYSTEM_INSTRUCTIONS []) = Inl ConnectionError"
    using chat_llm_backend_errors
      [OF refl, where net = "\<lambda>req. Inl ConnectionError" and e = ConnectionError]
    by simp
  have b: "fst (chat_llm default_config (\<lambda>req. Inr \<lparr>status_code = 500, body = None\<rparr>)
                 ''hi'' SYSTEM_INSTRUCTIONS []) = Inl HTTPError"
    using chat_llm_backend_errors
      [OF refl, where net = "\<lambda>req. Inr \<lparr>status_code = 500, body = None\<rparr>"
        and resp = "\<lparr>status_code = 500, body = None\<rparr>"]
    by simp
  have c: "fst (chat_llm default_config (\<lambda>req. Inr \<lparr>status_code = 200, body = None\<rparr>)
                 ''hi'' SYSTEM_INSTRUCTIONS []) = Inl JSONDecodeError"
    using chat_llm_backend_errors
      [OF refl, where net = "\<lambda>req. Inr \<lparr>status_code = 200, body = None\<rparr>"
        and resp = "\<lparr>status_code = 200, body = None\<rparr>"]
    by simp
  have d: "fst (chat_llm default_config
                 (\<lambda>req. Inr \<lparr>status_code = 200,
                              body = Some (JObj [(''error'', JStr ''busy'')])\<rparr>)
                 ''hi'' SYSTEM_INSTRUCTIONS []) = Inr (JStr [])"
    using chat_llm_backend_errors
      [OF refl,
        where net = "\<lambda>req. Inr \<lparr>status_code = 200,
                                  body = Some (JObj [(''error'', JStr ''busy'')])\<rparr>"
        and resp = "\<lparr>status_code = 200, body = Some (JObj [(''error'', JStr ''busy'')])\<rparr>"
        and d = "[(''error'', JStr ''busy'')]"]
    by simp
  from a b c d show ?thesis by (intro conjI)
qed

text \<open>
  The claim as stated has \<open>chat_llm\<close> raise on a body without the recognized fields.
  On a response with status 200 whose body is the JSON object \<open>{"error": "busy"}\<close>,
  which has none of \<open>message\<close>, \<open>text\<close> and \<open>choices\<close>, both backends return the
  empty string.
\<close>

theorem chat_llm_malformed_counterexample:
  "map_of [(''error'', JStr ''busy'')] ''message'' = None
 \<and> map_of [(''error'', JStr ''busy'')] ''text'' = None
 \<and> map_of [(''error'', JStr ''busy'')] ''choices'' = None
 \<and> fst (chat_llm default_config
          (\<lambda>req. Inr \<lparr>status_code = 200, body = Some (JObj [(''error'', JStr ''busy'')])\<rparr>)
          ''hi'' SYSTEM_INSTRUCTIONS []) = Inr (JStr [])
 \<and> fst (chat_llm (default_config\<lparr>LLM_PROVIDER := ''remote'', LLM_ENDPOINT := ''https://host/run''\<rparr>)
          (\<lambda>req. Inr \<lparr>status_code = 200, body = Some (JObj [(''error'', JStr ''busy'')])\<rparr>)
          ''hi'' SYSTEM_INSTRUCTIONS []) = Inr (JStr [])"
  by code_simp

text \<open>
  Claim C10. \<open>chat_llm\<close> runs the remote backend when \<open>LLM_PROVIDER\<close> is \<open>remote\<close> and
  \<open>LLM_ENDPOINT\<close> is not empty, and the Ollama backend in every other configuration,
  \<open>remote\<close> with an empty endpoint included. It sends one request: to the endpoint in
  the first case, to \<open>/api/chat\<close> on the Ollama host otherwise.
\<close>

theorem chat_llm_dispatch:
  "chat_llm cfg net up si sent =
     (if LLM_PROVIDER cfg = ''remote'' \<and> LLM_ENDPOINT cfg \<noteq> []
      then chat_remote cfg net (chat_messages si up) sent
      else chat_ollama cfg net (chat_messages si up) sent)
 \<and> (\<exists>req. snd (chat_llm cfg net up si sent) = sent @ [req]
       \<and> url req = (if LLM_PROVIDER cfg = ''remote'' \<and> LLM_ENDPOINT cfg \<noteq> []
                    then LLM_ENDPOINT cfg else OLLAMA_HOST cfg @ ''/api/chat''))"
  by (simp add: chat_llm_def chat_remote_def chat_ollama_def requests_post_def Let_def)

theorem chat_llm_dispatch_witness:
  "\<exists>req. snd (chat_llm (default_config\<lparr>LLM_PROVIDER := ''remote''\<rparr>)
                (\<lambda>req. Inl ConnectionError) ''hi'' SYSTEM_INSTRUCTIONS []) = [] @ [req]
     \<and> url req = ''http://localhost:11434/api/chat''"
  using conjunct2 [OF chat_llm_dispatch
      [of "default_config\<lparr>LLM_PROVIDER := ''remote''\<rparr>" "\<lambda>req. Inl ConnectionError"
          "''hi''" SYSTEM_INSTRUCTIONS "[]"]]
  by (simp add: default_config_def)


section \<open>Properties of the answering pipeline\<close>

text \<open>
  Inside the \<open>try\<close> block a failure of the embedding backend is caught: the context
  stays the one given.
\<close>

lemma retrieve_context_failure:
  "encode [question] = Inl e \<Longrightarrow> retrieve_context lib encode st question context = context"
  by (simp add: retrieve_context_def top_k_similar_def split: option.splits)

text \<open>
  \<open>_load_docs\<close> is called before the \<open>try\<close> block. When no document is loaded yet, a
  file is read and the embedding backend raises, \<open>answer_question\<close> raises too, and the
  generation backend is not called.
\<close>

lemma answer_question_load_failure:
  assumes "DOC_TEXTS st = []"
      and "read_docs (read_file dir) (sort (glob_md dir @ glob_txt dir)) [] = texts"
      and "texts \<noteq> []"
      and "encode texts = Inl e"
  shows "answer_question dir lib encode cfg net question extra_context st sent
           = (Inl e, st\<lparr>DOC_TEXTS := texts\<rparr>, sent)"
  using assms by (simp add: answer_question_def load_docs_def embed_texts_def Let_def)

text \<open>
  Claim C3 at a failing input: the directory holds one readable document, the embedding
  backend raises on every call, and the generation backend would answer \<open>ok\<close>. The call
  \<open>answer_question("What is schema evolution?")\<close> on the initial state raises the
  exception of the embedding backend, without a request to the generation backend.
\<close>

theorem answer_question_embedding_failure:
  "answer_question
     \<lparr>glob_md = [''docs/a.md''], glob_txt = [],
      read_file = (\<lambda>p. Some ''Schema evolution notes'')\<rparr>
     reference_numpy (\<lambda>ts. Inl EmbeddingError) default_config
     (\<lambda>req. Inr \<lparr>status_code = 200,
                  body = Some (JObj [(''message'', JObj [(''content'', JStr ''ok'')])])\<rparr>)
     ''What is schema evolution?'' None initial_state []
   = (Inl EmbeddingError,
      \<lparr>DOC_TEXTS = [''Schema evolution notes''], DOC_EMB = None\<rparr>, [])"
  by code_simp

end
